theory Spec2Isabelle
  imports Complex_Main
begin

section \<open>JavaScript values\<close>

text \<open>
  The client script \<^verbatim>\<open>public/app.js\<close> works on loosely typed data: server payloads are
  whatever \<^verbatim>\<open>response.json()\<close> decodes. The embedding therefore starts with a datatype of
  JavaScript values.

  Numbers: a JavaScript number is \<^verbatim>\<open>NaN\<close>, an infinity or a finite value. Finite values are
  modelled as exact reals; the rounding of IEEE-754 binary64 arithmetic and the
  negative zero are not modelled.
\<close>

datatype jsnum = NaN | NegInf | Fin real | PosInf

text \<open>
  Arrays and objects carry the identity of the heap object (a natural number), because
  \<^verbatim>\<open>===\<close> compares objects by reference. An object is its list of own properties.
\<close>

datatype jsval =
    JUndefined
  | JNull
  | JBool bool
  | JNum jsnum
  | JStr string
  | JArr nat "jsval list"
  | JObj nat "(string \<times> jsval) list"

text \<open>Thrown values are \<^verbatim>\<open>Error\<close> objects; only their \<^verbatim>\<open>message\<close> is ever read.\<close>

datatype js_error = JsError string

fun error_message :: "js_error \<Rightarrow> string" where
  "error_message (JsError m) = m"

text \<open>
  A statement sequence that mutates an object and may throw half-way: either it ran to
  its end, or it threw and left the object as it was at the throw.
\<close>

datatype 'a result = Returned 'a | Thrown js_error 'a

fun state_of :: "'a result \<Rightarrow> 'a" where
  "state_of (Returned x) = x"
| "state_of (Thrown e x) = x"

subsection \<open>Numbers\<close>

fun num_lt :: "jsnum \<Rightarrow> jsnum \<Rightarrow> bool" where
  "num_lt NaN b = False"
| "num_lt a NaN = False"
| "num_lt a NegInf = False"
| "num_lt NegInf b = True"
| "num_lt PosInf b = False"
| "num_lt (Fin x) PosInf = True"
| "num_lt (Fin x) (Fin y) = (x < y)"

definition num_le :: "jsnum \<Rightarrow> jsnum \<Rightarrow> bool" where
  "num_le a b = (if a = NaN \<or> b = NaN then False else (a = b \<or> num_lt a b))"

fun num_sign :: "jsnum \<Rightarrow> int" where
  "num_sign NaN = 0"
| "num_sign NegInf = -1"
| "num_sign PosInf = 1"
| "num_sign (Fin x) = (if x < 0 then -1 else if x = 0 then 0 else 1)"

fun num_times :: "jsnum \<Rightarrow> jsnum \<Rightarrow> jsnum" where
  "num_times (Fin x) (Fin y) = Fin (x * y)"
| "num_times a b =
     (if a = NaN \<or> b = NaN \<or> num_sign a * num_sign b = 0 then NaN
      else if 0 < num_sign a * num_sign b then PosInf else NegInf)"

text \<open>\<^verbatim>\<open>Math.round\<close> rounds to the nearest integer, ties towards \<open>+\<infinity>\<close>.\<close>

fun math_round :: "jsnum \<Rightarrow> jsnum" where
  "math_round (Fin x) = Fin (of_int \<lfloor>x + 1 / 2\<rfloor>)"
| "math_round n = n"

subsection \<open>Truthiness, equality, property reads\<close>

fun truthy :: "jsval \<Rightarrow> bool" where
  "truthy JUndefined = False"
| "truthy JNull = False"
| "truthy (JBool b) = b"
| "truthy (JNum n) = (n \<noteq> NaN \<and> n \<noteq> Fin 0)"
| "truthy (JStr s) = (s \<noteq> [])"
| "truthy (JArr r xs) = True"
| "truthy (JObj r kvs) = True"

text \<open>\<^verbatim>\<open>a === b\<close>\<close>

definition strict_eq :: "jsval \<Rightarrow> jsval \<Rightarrow> bool" where
  "strict_eq a b =
     (case (a, b) of
        (JUndefined, JUndefined) \<Rightarrow> True
      | (JNull, JNull) \<Rightarrow> True
      | (JBool x, JBool y) \<Rightarrow> x = y
      | (JNum x, JNum y) \<Rightarrow> x \<noteq> NaN \<and> x = y
      | (JStr x, JStr y) \<Rightarrow> x = y
      | (JArr r xs, JArr r' ys) \<Rightarrow> r = r'
      | (JObj r xs, JObj r' ys) \<Rightarrow> r = r'
      | _ \<Rightarrow> False)"

text \<open>
  \<^verbatim>\<open>v?.k\<close>, for the property names the script reads from payloads. None of them is
  inherited from a prototype, so only an object's own properties can answer; every
  other value gives \<^verbatim>\<open>undefined\<close>. Each plain read \<^verbatim>\<open>v.k\<close> of the modelled code stands behind
  a truthiness test of \<^verbatim>\<open>v\<close>, where it agrees with \<^verbatim>\<open>v?.k\<close>.
\<close>

fun get_prop :: "jsval \<Rightarrow> string \<Rightarrow> jsval" where
  "get_prop (JObj r kvs) k = (case map_of kvs k of Some v \<Rightarrow> v | None \<Rightarrow> JUndefined)"
| "get_prop v k = JUndefined"

text \<open>\<^verbatim>\<open>x1 || x2 || ... || xn\<close>\<close>

fun or_chain :: "jsval list \<Rightarrow> jsval" where
  "or_chain [] = JUndefined"
| "or_chain [x] = x"
| "or_chain (x # xs) = (if truthy x then x else or_chain xs)"

subsection \<open>Conversion to strings\<close>

text \<open>
  \<^verbatim>\<open>ToString\<close> of a decoded JSON value, as \<^verbatim>\<open>Array.prototype.join\<close> and \<^verbatim>\<open>encodeURIComponent\<close>
  apply it. The text of a number (\<^verbatim>\<open>Number.prototype.toString\<close>) is a parameter \<open>nts\<close> of the
  model. An array is the join of its elements with a comma. An object without an own
  \<^verbatim>\<open>toString\<close> property is \<^verbatim>\<open>[object Object]\<close>; with one (which, decoded from JSON, is never a
  function) the conversion throws a \<^verbatim>\<open>TypeError\<close>. \<^verbatim>\<open>join\<close> writes \<^verbatim>\<open>null\<close> and \<^verbatim>\<open>undefined\<close>
  elements as the empty string. The message texts of the errors are those of V8.
\<close>

fun js_ToString :: "(jsnum \<Rightarrow> string) \<Rightarrow> jsval \<Rightarrow> js_error + string"
  and js_join :: "(jsnum \<Rightarrow> string) \<Rightarrow> string \<Rightarrow> jsval list \<Rightarrow> js_error + string"
where
  "js_ToString nts JUndefined = Inr ''undefined''"
| "js_ToString nts JNull = Inr ''null''"
| "js_ToString nts (JBool b) = Inr (if b then ''true'' else ''false'')"
| "js_ToString nts (JNum n) = Inr (nts n)"
| "js_ToString nts (JStr s) = Inr s"
| "js_ToString nts (JArr r xs) = js_join nts '','' xs"
| "js_ToString nts (JObj r kvs) =
     (if map_of kvs ''toString'' = None then Inr ''[object Object]''
      else Inl (JsError ''Cannot convert object to primitive value''))"
| "js_join nts sep [] = Inr []"
| "js_join nts sep (x # xs) =
     (case (if x = JUndefined \<or> x = JNull then Inr [] else js_ToString nts x) of
        Inl e \<Rightarrow> Inl e
      | Inr a \<Rightarrow>
          (if xs = [] then Inr a
           else (case js_join nts sep xs of
                   Inl e \<Rightarrow> Inl e
                 | Inr b \<Rightarrow> Inr (a @ sep @ b))))"

text \<open>
  \<^verbatim>\<open>String.prototype.toLowerCase\<close>, on the ASCII letters. Strings are byte strings here;
  the case mapping of characters beyond ASCII is not modelled (a string that holds one
  never lower-cases to a word of the status vocabulary).
\<close>

definition to_lower :: "char \<Rightarrow> char" where
  "to_lower c =
     (case map_of (zip ''ABCDEFGHIJKLMNOPQRSTUVWXYZ'' ''abcdefghijklmnopqrstuvwxyz'') c of
        Some d \<Rightarrow> d
      | None \<Rightarrow> c)"

definition toLowerCase :: "string \<Rightarrow> string" where
  "toLowerCase s = map to_lower s"

section \<open>Response normaliser\<close>

text \<open>
  \<^verbatim>\<open>normaliseStatus(value)\<close>: \<^verbatim>\<open>null\<close> for a falsy value, else the lower-cased text of the
  value mapped through the status vocabulary.
\<close>

definition status_word :: "string \<Rightarrow> string" where
  "status_word normalised =
     (if normalised \<in> {''queued'', ''waiting'', ''pending''} then ''uploaded''
      else if normalised = ''uploading'' then ''uploading''
      else if normalised \<in> {''uploaded'', ''ready''} then ''uploaded''
      else if normalised \<in> {''processing'', ''in_progress''} then ''processing''
      else if normalised \<in> {''processed'', ''completed'', ''complete'', ''success'', ''done''}
        then ''processed''
      else if normalised \<in> {''failed'', ''error'', ''errored''} then ''failed''
      else normalised)"

text \<open>
  The method call \<^verbatim>\<open>value.toString()\<close> on a truthy value: the own \<^verbatim>\<open>toString\<close> property of an
  object, if it has one, is called although it is not a function.
\<close>

definition call_toString :: "(jsnum \<Rightarrow> string) \<Rightarrow> jsval \<Rightarrow> js_error + string" where
  "call_toString nts v =
     (case v of
        JObj r kvs \<Rightarrow>
          (if map_of kvs ''toString'' = None then Inr ''[object Object]''
           else Inl (JsError ''value.toString is not a function''))
      | _ \<Rightarrow> js_ToString nts v)"

definition normaliseStatus :: "(jsnum \<Rightarrow> string) \<Rightarrow> jsval \<Rightarrow> js_error + jsval" where
  "normaliseStatus nts v =
     (if \<not> truthy v then Inr JNull
      else (case call_toString nts v of
              Inl e \<Rightarrow> Inl e
            | Inr s \<Rightarrow> Inr (JStr (status_word (toLowerCase s)))))"

text \<open>\<^verbatim>\<open>normaliseProgress(value)\<close>\<close>

definition normaliseProgress :: "jsval \<Rightarrow> jsnum" where
  "normaliseProgress v =
     (case v of
        JNum n \<Rightarrow>
          (if n = NaN then Fin 0
           else if num_le n (Fin 1) then math_round (num_times n (Fin 100))
           else math_round n)
      | _ \<Rightarrow> Fin 0)"

text \<open>
  \<^verbatim>\<open>normaliseStatusPayload(payload)\<close>: the list of update records of a poll response.
\<close>

definition normaliseStatusPayload :: "jsval \<Rightarrow> jsval list" where
  "normaliseStatusPayload payload =
     (if \<not> truthy payload then []
      else (case payload of
              JArr r xs \<Rightarrow> xs
            | _ \<Rightarrow>
              (case get_prop payload ''items'' of
                 JArr r xs \<Rightarrow> xs
               | _ \<Rightarrow>
                 (case get_prop payload ''data'' of
                    JArr r xs \<Rightarrow> xs
                  | _ \<Rightarrow>
                    (case get_prop payload ''result'' of
                       JArr r xs \<Rightarrow> xs
                     | _ \<Rightarrow> [payload])))))"

section \<open>Queue store\<close>

text \<open>
  The \<^verbatim>\<open>File\<close> handed over by the browser, as far as the script reads it.
\<close>

record js_file =
  file_name :: string
  file_size :: jsnum
  file_lastModified :: jsnum

text \<open>
  One queue entry, with the fields \<^verbatim>\<open>queueFile\<close> creates (\<^verbatim>\<open>size\<close> is \<open>fsize\<close> and \<^verbatim>\<open>file\<close> is \<open>file_handle\<close> here).
  Field types follow the assignments of the script: \<^verbatim>\<open>status\<close> only ever receives a
  string literal, a truthy result of \<^verbatim>\<open>normaliseStatus\<close> or a snapshot of itself, so it is
  a string; \<^verbatim>\<open>progress\<close> receives number literals and results of \<^verbatim>\<open>normaliseProgress\<close>;
  \<^verbatim>\<open>originalPreviewUrl\<close> is the string of \<^verbatim>\<open>URL.createObjectURL\<close> or \<^verbatim>\<open>null\<close>; the fields
  copied from payloads hold arbitrary values.
\<close>

record item =
  clientId :: string
  name :: string
  fsize :: jsnum
  lastModified :: jsnum
  status :: string
  progress :: jsnum
  file_handle :: "js_file option"
  originalPreviewUrl :: "string option"
  originalUrl :: jsval
  processedPreviewUrl :: jsval
  createdAt :: jsnum
  message :: jsval
  serverId :: jsval
  processedUrl :: jsval
  downloadOriginalUrl :: jsval
  downloadProcessedUrl :: jsval

text \<open>
  Calls to the external collaborators, in the order the script makes them. Message
  texts of toasts and alerts belong to the presentation and are not modelled; a request
  is represented by what it carries.
\<close>

datatype variant = VInfo | VSuccess | VWarning | VError

datatype request =
    UploadReq js_file string
  | ProcessReq "jsval list"
  | StatusReq "jsval list"

datatype effect =
    Fetch request
  | Render
  | Toast variant
  | Alert variant
  | SetInterval
  | ClearInterval
  | Unhandled js_error

text \<open>
  The global \<^verbatim>\<open>state\<close> object together with \<^verbatim>\<open>pollErrorNotified\<close> and the log of effects.
  \<^verbatim>\<open>pollTimer\<close> is \<open>True\<close> while it holds an interval handle (handles are truthy).
  Items are never removed from \<^verbatim>\<open>state.items\<close>, so the position of an item in the list
  identifies the object that closures and snapshots refer to.
\<close>

record state =
  items :: "item list"
  pollTimer :: bool
  batchDownloadUrl :: jsval
  pollErrorNotified :: bool
  effects :: "effect list"

definition emit :: "effect \<Rightarrow> state \<Rightarrow> state" where
  "emit e s = s\<lparr>effects := effects s @ [e]\<rparr>"

definition renderQueue :: "state \<Rightarrow> state" where
  "renderQueue s = emit Render s"

definition set_item :: "nat \<Rightarrow> item \<Rightarrow> state \<Rightarrow> state" where
  "set_item i it s = s\<lparr>items := (items s)[i := it]\<rparr>"

text \<open>\<^verbatim>\<open>xs.findIndex(p)\<close>, the position of the object that \<^verbatim>\<open>xs.find(p)\<close> returns.\<close>

fun find_index :: "('a \<Rightarrow> bool) \<Rightarrow> 'a list \<Rightarrow> nat option" where
  "find_index p [] = None"
| "find_index p (x # xs) =
     (if p x then Some 0 else map_option Suc (find_index p xs))"

subsection \<open>Eligibility predicates\<close>

definition canRequestProcessing :: "item \<Rightarrow> bool" where
  "canRequestProcessing it =
     (truthy (serverId it) \<and> (status it = ''uploaded'' \<or> status it = ''failed''))"

definition shouldPoll :: "item \<Rightarrow> bool" where
  "shouldPoll it =
     (truthy (serverId it) \<and> status it \<in> set [''uploading'', ''uploaded'', ''processing''])"

subsection \<open>Merging a server record into an item\<close>

text \<open>
  \<^verbatim>\<open>updateItemFromServer(item, payload)\<close>, block by block. The first block may throw
  before anything is written; joining the errors may throw after the status was set.
\<close>

definition apply_status :: "jsval \<Rightarrow> item \<Rightarrow> item" where
  "apply_status nextStatus it =
     (case nextStatus of
        JStr s \<Rightarrow> (if s \<noteq> [] then it\<lparr>status := s\<rparr> else it)
      | _ \<Rightarrow> it)"

definition apply_progress :: "jsval \<Rightarrow> item \<Rightarrow> item" where
  "apply_progress payload it =
     (case get_prop payload ''progress'' of
        JNum n \<Rightarrow> it\<lparr>progress := normaliseProgress (JNum n)\<rparr>
      | _ \<Rightarrow>
        (case get_prop payload ''percentage'' of
           JNum m \<Rightarrow> it\<lparr>progress := normaliseProgress (JNum m)\<rparr>
         | _ \<Rightarrow> it))"

text \<open>The number a record reports as progress, if it reports one.\<close>

definition reported_progress :: "jsval \<Rightarrow> jsnum option" where
  "reported_progress payload =
     (case get_prop payload ''progress'' of
        JNum n \<Rightarrow> Some n
      | _ \<Rightarrow> (case get_prop payload ''percentage'' of JNum m \<Rightarrow> Some m | _ \<Rightarrow> None))"

definition apply_originalUrl :: "jsval \<Rightarrow> item \<Rightarrow> item" where
  "apply_originalUrl payload it =
     (let u = or_chain [get_prop payload ''originalUrl'', get_prop payload ''sourceUrl'',
                        get_prop payload ''thumbnailUrl'']
      in if truthy u then it\<lparr>originalUrl := u\<rparr> else it)"

definition apply_processedUrl :: "jsval \<Rightarrow> item \<Rightarrow> item" where
  "apply_processedUrl payload it =
     (let u = or_chain [get_prop payload ''processedUrl'', get_prop payload ''resultUrl'',
                        get_prop payload ''previewUrl'']
      in if truthy u then it\<lparr>processedUrl := u\<rparr> else it)"

definition apply_processedPreviewUrl :: "jsval \<Rightarrow> item \<Rightarrow> item" where
  "apply_processedPreviewUrl payload it =
     (let u = get_prop payload ''processedPreviewUrl''
      in if truthy u
         then (if \<not> truthy (processedUrl it)
               then it\<lparr>processedPreviewUrl := u, processedUrl := u\<rparr>
               else it\<lparr>processedPreviewUrl := u\<rparr>)
         else it)"

definition apply_downloadOriginalUrl :: "jsval \<Rightarrow> item \<Rightarrow> item" where
  "apply_downloadOriginalUrl payload it =
     (let u = or_chain [get_prop payload ''downloadOriginalUrl'',
                        get_prop payload ''originalDownloadUrl'']
      in if truthy u then it\<lparr>downloadOriginalUrl := u\<rparr> else it)"

definition apply_downloadProcessedUrl :: "jsval \<Rightarrow> item \<Rightarrow> item" where
  "apply_downloadProcessedUrl payload it =
     (let u = or_chain [get_prop payload ''downloadProcessedUrl'',
                        get_prop payload ''downloadUrl'',
                        get_prop payload ''resultDownloadUrl'']
      in if truthy u then it\<lparr>downloadProcessedUrl := u\<rparr> else it)"

definition apply_urls :: "jsval \<Rightarrow> item \<Rightarrow> item" where
  "apply_urls payload it =
     apply_downloadProcessedUrl payload
       (apply_downloadOriginalUrl payload
          (apply_processedPreviewUrl payload
             (apply_processedUrl payload
                (apply_originalUrl payload it))))"

text \<open>
  The closing block: a processed item is complete, and its local preview is revoked
  (\<^verbatim>\<open>URL.revokeObjectURL\<close>) and forgotten once a different server location is known.
\<close>

definition releases_preview :: "item \<Rightarrow> bool" where
  "releases_preview it =
     (case originalPreviewUrl it of
        Some u \<Rightarrow> u \<noteq> [] \<and> take 5 u = ''blob:'' \<and> truthy (originalUrl it)
                    \<and> \<not> strict_eq (originalUrl it) (JStr u)
      | None \<Rightarrow> False)"

definition finish_processed :: "item \<Rightarrow> item" where
  "finish_processed it =
     (if status it = ''processed''
      then (let it1 = it\<lparr>progress := Fin 100\<rparr>
            in if releases_preview it1 then it1\<lparr>originalPreviewUrl := None\<rparr> else it1)
      else it)"

text \<open>
  The elements of \<^verbatim>\<open>payload.errors\<close> when it is an array, none otherwise:
  \<^verbatim>\<open>Array.isArray(payload.errors) && payload.errors.length\<close> holds when this list is not empty.
\<close>

definition errors_list :: "jsval \<Rightarrow> jsval list" where
  "errors_list payload = (case get_prop payload ''errors'' of JArr r es \<Rightarrow> es | _ \<Rightarrow> [])"

definition apply_errors :: "(jsnum \<Rightarrow> string) \<Rightarrow> jsval \<Rightarrow> item \<Rightarrow> item result" where
  "apply_errors nts payload it =
     (case errors_list payload of
        e # es \<Rightarrow>
          (case js_join nts '' '' (e # es) of
             Inl err \<Rightarrow> Thrown err (it\<lparr>status := ''failed''\<rparr>)
           | Inr txt \<Rightarrow> Returned (it\<lparr>status := ''failed'', message := JStr txt\<rparr>))
      | [] \<Rightarrow>
          (if truthy (get_prop payload ''error'')
           then Returned (it\<lparr>status := ''failed'', message := get_prop payload ''error''\<rparr>)
           else if truthy (get_prop payload ''message'')
           then Returned (it\<lparr>message := get_prop payload ''message''\<rparr>)
           else Returned it))"

definition updateItemFromServer :: "(jsnum \<Rightarrow> string) \<Rightarrow> item \<Rightarrow> jsval \<Rightarrow> item result" where
  "updateItemFromServer nts it payload =
     (if \<not> truthy payload then Returned it
      else (case normaliseStatus nts (or_chain [get_prop payload ''status'',
                    get_prop payload ''state'', get_prop payload ''stage'']) of
              Inl err \<Rightarrow> Thrown err it
            | Inr nextStatus \<Rightarrow>
                (case apply_errors nts payload
                        (apply_urls payload (apply_progress payload (apply_status nextStatus it))) of
                   Thrown err it' \<Rightarrow> Thrown err it'
                 | Returned it' \<Rightarrow> Returned (finish_processed it'))))"

section \<open>Polling loop\<close>

text \<open>
  What a settled \<^verbatim>\<open>fetch\<close> hands back: a rejection, or a response with its \<^verbatim>\<open>ok\<close> flag, the
  outcome of \<^verbatim>\<open>response.text()\<close> and the outcome of \<^verbatim>\<open>response.json()\<close> (\<open>None\<close> when decoding
  fails, which the script turns into a \<^verbatim>\<open>null\<close> payload).
\<close>

datatype fetch_outcome =
    Rejected js_error
  | Response bool "js_error + string" "jsval option"

definition payload_of :: "jsval option \<Rightarrow> jsval" where
  "payload_of js = (case js of None \<Rightarrow> JNull | Some p \<Rightarrow> p)"

definition stopPolling :: "state \<Rightarrow> state" where
  "stopPolling s =
     (if pollTimer s then emit ClearInterval (s\<lparr>pollTimer := False\<rparr>) else s)
       \<lparr>pollErrorNotified := False\<rparr>"

text \<open>
  \<^verbatim>\<open>ids.map((id) => encodeURIComponent(id))\<close> converts every identifier to a string and
  throws at the first one that cannot be converted.
\<close>

fun first_throw :: "(jsnum \<Rightarrow> string) \<Rightarrow> jsval list \<Rightarrow> js_error option" where
  "first_throw nts [] = None"
| "first_throw nts (x # xs) =
     (case js_ToString nts x of Inl e \<Rightarrow> Some e | Inr t \<Rightarrow> first_throw nts xs)"

text \<open>
  \<^verbatim>\<open>pollStatuses()\<close> up to its \<^verbatim>\<open>await\<close>. An exception while the URL is built rejects the
  promise of the pass, which nobody handles.
\<close>

definition pollStatuses_begin :: "(jsnum \<Rightarrow> string) \<Rightarrow> state \<Rightarrow> state" where
  "pollStatuses_begin nts s =
     (let ids = map serverId (filter shouldPoll (items s))
      in if ids = [] then stopPolling s
         else (case first_throw nts ids of
                 Some e \<Rightarrow> emit (Unhandled e) s
               | None \<Rightarrow> emit (Fetch (StatusReq ids)) s))"

definition ensurePolling :: "(jsnum \<Rightarrow> string) \<Rightarrow> state \<Rightarrow> state" where
  "ensurePolling nts s =
     (if pollTimer s then s
      else if \<not> list_ex shouldPoll (items s) then s
      else emit SetInterval ((pollStatuses_begin nts s)\<lparr>pollTimer := True\<rparr>))"

text \<open>The body of \<^verbatim>\<open>updates.forEach\<close>, on the state and \<^verbatim>\<open>latestZipUrl\<close>.\<close>

definition apply_update ::
  "(jsnum \<Rightarrow> string) \<Rightarrow> jsval \<Rightarrow> state \<times> jsval \<Rightarrow> (state \<times> jsval) result" where
  "apply_update nts entry sz =
     (let s = fst sz; latestZipUrl = snd sz;
          identifier = or_chain [get_prop entry ''id'', get_prop entry ''uploadId'',
                                 get_prop entry ''uuid'', get_prop entry ''fileId'',
                                 get_prop entry ''identifier'']
      in if \<not> truthy identifier then Returned (s, latestZipUrl)
         else (case find_index (\<lambda>candidate. strict_eq (serverId candidate) identifier
                                   \<or> strict_eq (JStr (clientId candidate)) identifier) (items s) of
                 None \<Rightarrow> Returned (s, latestZipUrl)
               | Some i \<Rightarrow>
                   (let it = items s ! i;
                        it1 = (if \<not> truthy (serverId it) then it\<lparr>serverId := identifier\<rparr> else it)
                    in (case updateItemFromServer nts it1 entry of
                          Thrown err it2 \<Rightarrow> Thrown err (set_item i it2 s, latestZipUrl)
                        | Returned it2 \<Rightarrow>
                            Returned (set_item i it2 s,
                              if truthy (get_prop entry ''zipUrl'') then get_prop entry ''zipUrl''
                              else latestZipUrl)))))"

fun apply_updates ::
  "(jsnum \<Rightarrow> string) \<Rightarrow> jsval list \<Rightarrow> state \<times> jsval \<Rightarrow> (state \<times> jsval) result" where
  "apply_updates nts [] sz = Returned sz"
| "apply_updates nts (entry # rest) sz =
     (case apply_update nts entry sz of
        Thrown err sz' \<Rightarrow> Thrown err sz'
      | Returned sz' \<Rightarrow> apply_updates nts rest sz')"

definition poll_catch :: "state \<Rightarrow> state" where
  "poll_catch s =
     (if \<not> pollErrorNotified s
      then (emit (Alert VWarning) (emit (Toast VWarning) s))\<lparr>pollErrorNotified := True\<rparr>
      else s)"

text \<open>
  \<^verbatim>\<open>pollStatuses()\<close> from the settling of its request on. The closing \<^verbatim>\<open>setAlert()\<close> that
  clears a warning banner is presentation and left out.
\<close>

definition pollStatuses_resume :: "(jsnum \<Rightarrow> string) \<Rightarrow> state \<Rightarrow> fetch_outcome \<Rightarrow> state" where
  "pollStatuses_resume nts s outcome =
     (case outcome of
        Rejected err \<Rightarrow> poll_catch s
      | Response ok txt js \<Rightarrow>
          (if \<not> ok then poll_catch s
           else (let payload = payload_of js;
                     s1 = s\<lparr>pollErrorNotified := False\<rparr>
                 in (case apply_updates nts (normaliseStatusPayload payload) (s1, JNull) of
                       Thrown err sz \<Rightarrow> poll_catch (fst sz)
                     | Returned sz \<Rightarrow>
                         (let s2 = fst sz;
                              latestZipUrl = (if truthy (get_prop payload ''zipUrl'')
                                              then get_prop payload ''zipUrl'' else snd sz);
                              s3 = (if truthy latestZipUrl
                                    then s2\<lparr>batchDownloadUrl := latestZipUrl\<rparr> else s2);
                              s4 = (if \<not> list_ex shouldPoll (items s3) then stopPolling s3 else s3)
                          in renderQueue s4)))))"

section \<open>Upload orchestrator\<close>

text \<open>\<^verbatim>\<open>uploadFile(item)\<close> up to its \<^verbatim>\<open>await\<close>, for the item at position \<open>i\<close>.\<close>

definition uploadFile_begin :: "state \<Rightarrow> nat \<Rightarrow> state" where
  "uploadFile_begin s i =
     (if i < length (items s)
      then (case file_handle (items s ! i) of
              None \<Rightarrow> s
            | Some f \<Rightarrow>
                (let it = (items s ! i)\<lparr>status := ''uploading'', progress := Fin 0,
                                         message := JStr []\<rparr>
                 in emit (Fetch (UploadReq f (name it))) (renderQueue (set_item i it s))))
      else s)"

text \<open>
  The assignments that follow a successful response. The identifier is
  written first; normalising the status may throw after that.
\<close>

definition upload_apply :: "(jsnum \<Rightarrow> string) \<Rightarrow> item \<Rightarrow> jsval \<Rightarrow> item result" where
  "upload_apply nts it payload =
     (let identifier = or_chain [get_prop payload ''id'', get_prop payload ''uploadId'',
                                 get_prop payload ''uuid'', get_prop payload ''fileId'',
                                 get_prop payload ''identifier'', serverId it,
                                 JStr (clientId it)];
          it1 = it\<lparr>serverId := identifier\<rparr>
      in (case normaliseStatus nts
                 (or_chain [get_prop payload ''status'', get_prop payload ''state'']) of
            Inl err \<Rightarrow> Thrown err it1
          | Inr st \<Rightarrow>
              (let it2 = it1\<lparr>
                     status := (case or_chain [st, JStr ''uploaded''] of
                                  JStr w \<Rightarrow> w | _ \<Rightarrow> ''uploaded''),
                     progress := (if get_prop payload ''progress'' \<noteq> JUndefined
                                  then normaliseProgress (get_prop payload ''progress'')
                                  else Fin 100),
                     originalUrl := or_chain [get_prop payload ''originalUrl'',
                                      get_prop payload ''sourceUrl'', originalUrl it1],
                     downloadOriginalUrl := or_chain [get_prop payload ''downloadOriginalUrl'',
                                      get_prop payload ''originalDownloadUrl'',
                                      downloadOriginalUrl it1],
                     processedUrl := or_chain [get_prop payload ''processedUrl'',
                                      get_prop payload ''resultUrl'', processedUrl it1],
                     downloadProcessedUrl := or_chain [get_prop payload ''processedDownloadUrl'',
                                      get_prop payload ''downloadUrl'', downloadProcessedUrl it1],
                     message := or_chain [get_prop payload ''message'', JStr []],
                     file_handle := None\<rparr>
               in Returned (if status it2 = ''processed''
                            then it2\<lparr>progress := Fin 100\<rparr> else it2))))"

text \<open>The \<^verbatim>\<open>catch\<close> block of \<^verbatim>\<open>uploadFile\<close>.\<close>

definition upload_catch :: "js_error \<Rightarrow> item \<Rightarrow> item" where
  "upload_catch err it =
     it\<lparr>status := ''failed'', progress := Fin 0,
        message := JStr (if error_message err \<noteq> [] then error_message err
                         else ''Upload failed'')\<rparr>"

definition upload_failed :: "nat \<Rightarrow> js_error \<Rightarrow> state \<Rightarrow> state" where
  "upload_failed i err s =
     emit (Alert VError) (emit (Toast VError)
       (renderQueue (set_item i (upload_catch err (items s ! i)) s)))"

text \<open>
  \<^verbatim>\<open>uploadFile(item)\<close> from the settling of its request on. The item of the closure is
  still at its position, since items are never removed.
\<close>

definition uploadFile_resume ::
  "(jsnum \<Rightarrow> string) \<Rightarrow> state \<Rightarrow> nat \<Rightarrow> fetch_outcome \<Rightarrow> state" where
  "uploadFile_resume nts s i outcome =
     (if \<not> i < length (items s) then s
      else (case outcome of
              Rejected err \<Rightarrow> upload_failed i err s
            | Response ok txt js \<Rightarrow>
                (if \<not> ok
                 then (case txt of
                         Inl err \<Rightarrow> upload_failed i err s
                       | Inr errorText \<Rightarrow>
                           upload_failed i
                             (JsError (if errorText \<noteq> [] then errorText else ''Upload failed'')) s)
                 else (case upload_apply nts (items s ! i) (payload_of js) of
                         Thrown err it' \<Rightarrow> upload_failed i err (set_item i it' s)
                       | Returned it' \<Rightarrow>
                           emit (Alert VSuccess) (emit (Toast VSuccess)
                             (renderQueue (ensurePolling nts (set_item i it' s))))))))"

text \<open>
  \<^verbatim>\<open>queueFile(file)\<close>. The generated client identifier, the preview URL and the clock
  reading come from the browser.
\<close>

definition queueFile ::
  "state \<Rightarrow> js_file \<Rightarrow> string \<Rightarrow> string option \<Rightarrow> jsnum \<Rightarrow> state" where
  "queueFile s f cid previewUrl now =
     (let it = \<lparr>clientId = cid, name = file_name f, fsize = file_size f,
                lastModified = file_lastModified f, status = ''queued'', progress = Fin 0,
                file_handle = Some f, originalPreviewUrl = previewUrl, originalUrl = JNull,
                processedPreviewUrl = JNull, createdAt = now, message = JStr [],
                serverId = JNull, processedUrl = JNull, downloadOriginalUrl = JNull,
                downloadProcessedUrl = JNull\<rparr>;
          s1 = s\<lparr>items := items s @ [it], batchDownloadUrl := JNull\<rparr>
      in uploadFile_begin (renderQueue s1) (length (items s)))"

section \<open>Processing request orchestrator\<close>

text \<open>A snapshot entry: the item (by position), its status and its message.\<close>

type_synonym snapshot = "nat \<times> string \<times> jsval"

definition take_snapshots :: "state \<Rightarrow> jsval list \<Rightarrow> snapshot list" where
  "take_snapshots s ids =
     List.map_filter
       (\<lambda>id. (case find_index (\<lambda>it. strict_eq (serverId it) id) (items s) of
                 None \<Rightarrow> None
               | Some i \<Rightarrow> Some (i, status (items s ! i), message (items s ! i))))
       ids"

definition optimistic_item :: "item \<Rightarrow> item" where
  "optimistic_item it =
     it\<lparr>status := ''processing'', message := JStr [],
        progress := (if num_lt (progress it) (Fin 5) then Fin 5 else progress it)\<rparr>"

definition optimistic :: "state \<Rightarrow> snapshot \<Rightarrow> state" where
  "optimistic s snap = set_item (fst snap) (optimistic_item (items s ! fst snap)) s"

definition restore :: "state \<Rightarrow> snapshot \<Rightarrow> state" where
  "restore s snap =
     set_item (fst snap)
       ((items s ! fst snap)\<lparr>status := fst (snd snap), message := snd (snd snap)\<rparr>) s"

text \<open>
  \<^verbatim>\<open>requestProcessing(ids, { itemName })\<close> up to its \<^verbatim>\<open>await\<close>. The list of identifiers may
  be absent. The result is the new state and, when a request was sent, the snapshots
  its continuation holds. \<^verbatim>\<open>itemName\<close> only enters a message text.
\<close>

definition requestProcessing_begin ::
  "(jsnum \<Rightarrow> string) \<Rightarrow> state \<Rightarrow> jsval list option \<Rightarrow> state \<times> snapshot list option" where
  "requestProcessing_begin nts s ids =
     (case ids of
        None \<Rightarrow> (s, None)
      | Some l \<Rightarrow>
          (if l = [] then (s, None)
           else (let snapshots = take_snapshots s l;
                     s1 = foldl optimistic s snapshots;
                     s2 = ensurePolling nts (renderQueue s1)
                 in (emit (Fetch (ProcessReq l)) s2, Some snapshots))))"

definition processing_catch :: "state \<Rightarrow> snapshot list \<Rightarrow> state" where
  "processing_catch s snapshots =
     emit (Alert VError) (emit (Toast VError) (renderQueue (foldl restore s snapshots)))"

text \<open>\<^verbatim>\<open>requestProcessing\<close> from the settling of its request on.\<close>

definition requestProcessing_resume ::
  "state \<Rightarrow> snapshot list \<Rightarrow> fetch_outcome \<Rightarrow> state" where
  "requestProcessing_resume s snapshots outcome =
     (case outcome of
        Rejected err \<Rightarrow> processing_catch s snapshots
      | Response ok txt js \<Rightarrow>
          (if \<not> ok then processing_catch s snapshots
           else (let payload = payload_of js;
                     s1 = (if truthy (get_prop payload ''zipUrl'')
                           then s\<lparr>batchDownloadUrl := get_prop payload ''zipUrl''\<rparr> else s)
                 in emit (Alert VSuccess) (emit (Toast VSuccess) s1))))"

text \<open>A request fails when it is rejected or answered with a non-success status.\<close>

fun failed_outcome :: "fetch_outcome \<Rightarrow> bool" where
  "failed_outcome (Rejected err) = True"
| "failed_outcome (Response ok txt js) = (\<not> ok)"

section \<open>Values that convert to text\<close>

text \<open>
  A value in which no object, at any depth, has an own \<^verbatim>\<open>toString\<close> property. Strings,
  numbers, booleans, \<^verbatim>\<open>null\<close> and arrays and objects built from them without that key are
  all of this kind.
\<close>

fun plain :: "jsval \<Rightarrow> bool"
  and plain_list :: "jsval list \<Rightarrow> bool"
  and plain_props :: "(string \<times> jsval) list \<Rightarrow> bool"
where
  "plain (JArr r xs) = plain_list xs"
| "plain (JObj r kvs) = (map_of kvs ''toString'' = None \<and> plain_props kvs)"
| "plain JUndefined = True"
| "plain JNull = True"
| "plain (JBool b) = True"
| "plain (JNum n) = True"
| "plain (JStr s) = True"
| "plain_list [] = True"
| "plain_list (x # xs) = (plain x \<and> plain_list xs)"
| "plain_props [] = True"
| "plain_props (kv # kvs) = (plain (snd kv) \<and> plain_props kvs)"

section \<open>Progress as a percentage\<close>

text \<open>An integer between \<open>0\<close> and \<open>100\<close>.\<close>

definition whole_percentage :: "jsnum \<Rightarrow> bool" where
  "whole_percentage n =
     (case n of Fin x \<Rightarrow> 0 \<le> x \<and> x \<le> 100 \<and> x = of_int \<lfloor>x\<rfloor> | _ \<Rightarrow> False)"



definition all_whole :: "state \<Rightarrow> bool" where
  "all_whole s = list_all (\<lambda>it. whole_percentage (progress it)) (items s)"

section \<open>Sample data\<close>

text \<open>
  The state the script starts from, a file, and the runs used below to instantiate the
  theorems. \<open>sample_nts\<close> stands in for \<^verbatim>\<open>Number.prototype.toString\<close> in these runs, none of
  which converts a number to text.
\<close>

definition initial_state :: state where
  "initial_state =
     \<lparr>items = [], pollTimer = False, batchDownloadUrl = JNull, pollErrorNotified = False,
      effects = []\<rparr>"

definition sample_nts :: "jsnum \<Rightarrow> string" where
  "sample_nts n = []"

definition photo :: js_file where
  "photo = \<lparr>file_name = ''photo.jpg'', file_size = Fin 2048,
             file_lastModified = Fin 1700000000000\<rparr>"

text \<open>The queue after \<^verbatim>\<open>photo.jpg\<close> was selected: one item, uploading.\<close>

definition uploading_state :: state where
  "uploading_state = queueFile initial_state photo ''client-1'' (Some ''blob:preview-1'') (Fin 1)"

text \<open>The upload response \<^verbatim>\<open>{id: "abc123", status: "uploaded", progress: 100}\<close>.\<close>

definition upload_response :: jsval where
  "upload_response =
     JObj 1 [(''id'', JStr ''abc123''), (''status'', JStr ''uploaded''),
             (''progress'', JNum (Fin 100))]"

definition uploaded_state :: state where
  "uploaded_state =
     uploadFile_resume sample_nts uploading_state 0
       (Response True (Inr []) (Some upload_response))"


text \<open>A transport failure, and a server refusal with a body text.\<close>

definition transport_failure :: fetch_outcome where
  "transport_failure = Rejected (JsError ''Failed to fetch'')"

definition server_refusal :: fetch_outcome where
  "server_refusal = Response False (Inr ''Service unavailable'') None"

text \<open>
  A poll response that reports an error for the uploaded photo, the retry of its
  processing, and the state after that retry failed in transit.
\<close>

definition decode_error_record :: jsval where
  "decode_error_record = JObj 3 [(''id'', JStr ''abc123''), (''error'', JStr ''decode failed'')]"

definition failed_state :: state where
  "failed_state =
     pollStatuses_resume sample_nts uploaded_state
       (Response True (Inr []) (Some decode_error_record))"

definition retry_state :: state where
  "retry_state = fst (requestProcessing_begin sample_nts failed_state (Some [JStr ''abc123'']))"

definition rolled_back_state :: state where
  "rolled_back_state = requestProcessing_resume retry_state [(0, ''failed'', JStr ''decode failed'')]
     transport_failure"










section \<open>Basic facts\<close>


declare or_chain.simps [simp del]

lemma emit_simps [simp]:
  "items (emit e s) = items s"
  "pollTimer (emit e s) = pollTimer s"
  "batchDownloadUrl (emit e s) = batchDownloadUrl s"
  "pollErrorNotified (emit e s) = pollErrorNotified s"
  "effects (emit e s) = effects s @ [e]"
  by (simp_all add: emit_def)

lemma renderQueue_simps [simp]:
  "items (renderQueue s) = items s"
  "pollTimer (renderQueue s) = pollTimer s"
  "batchDownloadUrl (renderQueue s) = batchDownloadUrl s"
  "pollErrorNotified (renderQueue s) = pollErrorNotified s"
  by (simp_all add: renderQueue_def)

lemma set_item_simps [simp]:
  "items (set_item i it s) = (items s)[i := it]"
  "pollTimer (set_item i it s) = pollTimer s"
  "batchDownloadUrl (set_item i it s) = batchDownloadUrl s"
  "pollErrorNotified (set_item i it s) = pollErrorNotified s"
  "effects (set_item i it s) = effects s"
  by (simp_all add: set_item_def)

lemma stopPolling_simps [simp]:
  "items (stopPolling s) = items s"
  "batchDownloadUrl (stopPolling s) = batchDownloadUrl s"
  "pollTimer (stopPolling s) = False"
  "pollErrorNotified (stopPolling s) = False"
  by (simp_all add: stopPolling_def)

lemma pollStatuses_begin_simps [simp]:
  "items (pollStatuses_begin nts s) = items s"
  "batchDownloadUrl (pollStatuses_begin nts s) = batchDownloadUrl s"
  by (simp_all add: pollStatuses_begin_def Let_def split: option.splits)

lemma ensurePolling_simps [simp]:
  "items (ensurePolling nts s) = items s"
  "batchDownloadUrl (ensurePolling nts s) = batchDownloadUrl s"
  by (simp_all add: ensurePolling_def)

lemma upload_failed_simps [simp]:
  "items (upload_failed i err s) = (items s)[i := upload_catch err (items s ! i)]"
  "batchDownloadUrl (upload_failed i err s) = batchDownloadUrl s"
  by (simp_all add: upload_failed_def)

lemma normaliseStatus_string:
  "normaliseStatus nts (JStr w) =
     Inr (if w = [] then JNull else JStr (status_word (toLowerCase w)))"
  by (simp add: normaliseStatus_def call_toString_def)

lemma normaliseStatus_cases:
  "normaliseStatus nts v = Inr st \<Longrightarrow> st = JNull \<or> (\<exists>w. st = JStr w)"
  by (auto simp: normaliseStatus_def split: if_splits sum.splits)

section \<open>Field by field: what each block of the merge writes\<close>

lemma apply_status_frame [simp]:
  "clientId (apply_status ns it) = clientId it"
  "name (apply_status ns it) = name it"
  "fsize (apply_status ns it) = fsize it"
  "lastModified (apply_status ns it) = lastModified it"
  "progress (apply_status ns it) = progress it"
  "file_handle (apply_status ns it) = file_handle it"
  "originalPreviewUrl (apply_status ns it) = originalPreviewUrl it"
  "originalUrl (apply_status ns it) = originalUrl it"
  "processedPreviewUrl (apply_status ns it) = processedPreviewUrl it"
  "createdAt (apply_status ns it) = createdAt it"
  "message (apply_status ns it) = message it"
  "serverId (apply_status ns it) = serverId it"
  "processedUrl (apply_status ns it) = processedUrl it"
  "downloadOriginalUrl (apply_status ns it) = downloadOriginalUrl it"
  "downloadProcessedUrl (apply_status ns it) = downloadProcessedUrl it"
  by (simp_all add: apply_status_def split: jsval.splits)

lemma apply_progress_frame [simp]:
  "clientId (apply_progress p it) = clientId it"
  "name (apply_progress p it) = name it"
  "fsize (apply_progress p it) = fsize it"
  "lastModified (apply_progress p it) = lastModified it"
  "status (apply_progress p it) = status it"
  "file_handle (apply_progress p it) = file_handle it"
  "originalPreviewUrl (apply_progress p it) = originalPreviewUrl it"
  "originalUrl (apply_progress p it) = originalUrl it"
  "processedPreviewUrl (apply_progress p it) = processedPreviewUrl it"
  "createdAt (apply_progress p it) = createdAt it"
  "message (apply_progress p it) = message it"
  "serverId (apply_progress p it) = serverId it"
  "processedUrl (apply_progress p it) = processedUrl it"
  "downloadOriginalUrl (apply_progress p it) = downloadOriginalUrl it"
  "downloadProcessedUrl (apply_progress p it) = downloadProcessedUrl it"
  by (simp_all add: apply_progress_def split: jsval.splits)

lemma apply_originalUrl_frame [simp]:
  "clientId (apply_originalUrl p it) = clientId it"
  "name (apply_originalUrl p it) = name it"
  "fsize (apply_originalUrl p it) = fsize it"
  "lastModified (apply_originalUrl p it) = lastModified it"
  "status (apply_originalUrl p it) = status it"
  "progress (apply_originalUrl p it) = progress it"
  "file_handle (apply_originalUrl p it) = file_handle it"
  "originalPreviewUrl (apply_originalUrl p it) = originalPreviewUrl it"
  "processedPreviewUrl (apply_originalUrl p it) = processedPreviewUrl it"
  "createdAt (apply_originalUrl p it) = createdAt it"
  "message (apply_originalUrl p it) = message it"
  "serverId (apply_originalUrl p it) = serverId it"
  "processedUrl (apply_originalUrl p it) = processedUrl it"
  "downloadOriginalUrl (apply_originalUrl p it) = downloadOriginalUrl it"
  "downloadProcessedUrl (apply_originalUrl p it) = downloadProcessedUrl it"
  by (simp_all add: apply_originalUrl_def Let_def)

lemma apply_processedUrl_frame [simp]:
  "clientId (apply_processedUrl p it) = clientId it"
  "name (apply_processedUrl p it) = name it"
  "fsize (apply_processedUrl p it) = fsize it"
  "lastModified (apply_processedUrl p it) = lastModified it"
  "status (apply_processedUrl p it) = status it"
  "progress (apply_processedUrl p it) = progress it"
  "file_handle (apply_processedUrl p it) = file_handle it"
  "originalPreviewUrl (apply_processedUrl p it) = originalPreviewUrl it"
  "originalUrl (apply_processedUrl p it) = originalUrl it"
  "processedPreviewUrl (apply_processedUrl p it) = processedPreviewUrl it"
  "createdAt (apply_processedUrl p it) = createdAt it"
  "message (apply_processedUrl p it) = message it"
  "serverId (apply_processedUrl p it) = serverId it"
  "downloadOriginalUrl (apply_processedUrl p it) = downloadOriginalUrl it"
  "downloadProcessedUrl (apply_processedUrl p it) = downloadProcessedUrl it"
  by (simp_all add: apply_processedUrl_def Let_def)

lemma apply_processedPreviewUrl_frame [simp]:
  "clientId (apply_processedPreviewUrl p it) = clientId it"
  "name (apply_processedPreviewUrl p it) = name it"
  "fsize (apply_processedPreviewUrl p it) = fsize it"
  "lastModified (apply_processedPreviewUrl p it) = lastModified it"
  "status (apply_processedPreviewUrl p it) = status it"
  "progress (apply_processedPreviewUrl p it) = progress it"
  "file_handle (apply_processedPreviewUrl p it) = file_handle it"
  "originalPreviewUrl (apply_processedPreviewUrl p it) = originalPreviewUrl it"
  "originalUrl (apply_processedPreviewUrl p it) = originalUrl it"
  "createdAt (apply_processedPreviewUrl p it) = createdAt it"
  "message (apply_processedPreviewUrl p it) = message it"
  "serverId (apply_processedPreviewUrl p it) = serverId it"
  "downloadOriginalUrl (apply_processedPreviewUrl p it) = downloadOriginalUrl it"
  "downloadProcessedUrl (apply_processedPreviewUrl p it) = downloadProcessedUrl it"
  by (simp_all add: apply_processedPreviewUrl_def Let_def)

lemma apply_downloadOriginalUrl_frame [simp]:
  "clientId (apply_downloadOriginalUrl p it) = clientId it"
  "name (apply_downloadOriginalUrl p it) = name it"
  "fsize (apply_downloadOriginalUrl p it) = fsize it"
  "lastModified (apply_downloadOriginalUrl p it) = lastModified it"
  "status (apply_downloadOriginalUrl p it) = status it"
  "progress (apply_downloadOriginalUrl p it) = progress it"
  "file_handle (apply_downloadOriginalUrl p it) = file_handle it"
  "originalPreviewUrl (apply_downloadOriginalUrl p it) = originalPreviewUrl it"
  "originalUrl (apply_downloadOriginalUrl p it) = originalUrl it"
  "processedPreviewUrl (apply_downloadOriginalUrl p it) = processedPreviewUrl it"
  "createdAt (apply_downloadOriginalUrl p it) = createdAt it"
  "message (apply_downloadOriginalUrl p it) = message it"
  "serverId (apply_downloadOriginalUrl p it) = serverId it"
  "processedUrl (apply_downloadOriginalUrl p it) = processedUrl it"
  "downloadProcessedUrl (apply_downloadOriginalUrl p it) = downloadProcessedUrl it"
  by (simp_all add: apply_downloadOriginalUrl_def Let_def)

lemma apply_downloadProcessedUrl_frame [simp]:
  "clientId (apply_downloadProcessedUrl p it) = clientId it"
  "name (apply_downloadProcessedUrl p it) = name it"
  "fsize (apply_downloadProcessedUrl p it) = fsize it"
  "lastModified (apply_downloadProcessedUrl p it) = lastModified it"
  "status (apply_downloadProcessedUrl p it) = status it"
  "progress (apply_downloadProcessedUrl p it) = progress it"
  "file_handle (apply_downloadProcessedUrl p it) = file_handle it"
  "originalPreviewUrl (apply_downloadProcessedUrl p it) = originalPreviewUrl it"
  "originalUrl (apply_downloadProcessedUrl p it) = originalUrl it"
  "processedPreviewUrl (apply_downloadProcessedUrl p it) = processedPreviewUrl it"
  "createdAt (apply_downloadProcessedUrl p it) = createdAt it"
  "message (apply_downloadProcessedUrl p it) = message it"
  "serverId (apply_downloadProcessedUrl p it) = serverId it"
  "processedUrl (apply_downloadProcessedUrl p it) = processedUrl it"
  "downloadOriginalUrl (apply_downloadProcessedUrl p it) = downloadOriginalUrl it"
  by (simp_all add: apply_downloadProcessedUrl_def Let_def)

lemma apply_urls_frame [simp]:
  "clientId (apply_urls p it) = clientId it"
  "name (apply_urls p it) = name it"
  "fsize (apply_urls p it) = fsize it"
  "lastModified (apply_urls p it) = lastModified it"
  "status (apply_urls p it) = status it"
  "progress (apply_urls p it) = progress it"
  "file_handle (apply_urls p it) = file_handle it"
  "originalPreviewUrl (apply_urls p it) = originalPreviewUrl it"
  "createdAt (apply_urls p it) = createdAt it"
  "message (apply_urls p it) = message it"
  "serverId (apply_urls p it) = serverId it"
  by (simp_all add: apply_urls_def)

lemma finish_processed_frame [simp]:
  "clientId (finish_processed it) = clientId it"
  "name (finish_processed it) = name it"
  "fsize (finish_processed it) = fsize it"
  "lastModified (finish_processed it) = lastModified it"
  "status (finish_processed it) = status it"
  "file_handle (finish_processed it) = file_handle it"
  "originalUrl (finish_processed it) = originalUrl it"
  "processedPreviewUrl (finish_processed it) = processedPreviewUrl it"
  "createdAt (finish_processed it) = createdAt it"
  "message (finish_processed it) = message it"
  "serverId (finish_processed it) = serverId it"
  "processedUrl (finish_processed it) = processedUrl it"
  "downloadOriginalUrl (finish_processed it) = downloadOriginalUrl it"
  "downloadProcessedUrl (finish_processed it) = downloadProcessedUrl it"
  by (simp_all add: finish_processed_def Let_def split: option.splits)

lemma optimistic_item_frame [simp]:
  "clientId (optimistic_item it) = clientId it"
  "name (optimistic_item it) = name it"
  "fsize (optimistic_item it) = fsize it"
  "lastModified (optimistic_item it) = lastModified it"
  "file_handle (optimistic_item it) = file_handle it"
  "originalPreviewUrl (optimistic_item it) = originalPreviewUrl it"
  "originalUrl (optimistic_item it) = originalUrl it"
  "processedPreviewUrl (optimistic_item it) = processedPreviewUrl it"
  "createdAt (optimistic_item it) = createdAt it"
  "serverId (optimistic_item it) = serverId it"
  "processedUrl (optimistic_item it) = processedUrl it"
  "downloadOriginalUrl (optimistic_item it) = downloadOriginalUrl it"
  "downloadProcessedUrl (optimistic_item it) = downloadProcessedUrl it"
  by (simp_all add: optimistic_item_def)

lemma upload_catch_frame [simp]:
  "clientId (upload_catch err it) = clientId it"
  "name (upload_catch err it) = name it"
  "fsize (upload_catch err it) = fsize it"
  "lastModified (upload_catch err it) = lastModified it"
  "file_handle (upload_catch err it) = file_handle it"
  "originalPreviewUrl (upload_catch err it) = originalPreviewUrl it"
  "originalUrl (upload_catch err it) = originalUrl it"
  "processedPreviewUrl (upload_catch err it) = processedPreviewUrl it"
  "createdAt (upload_catch err it) = createdAt it"
  "serverId (upload_catch err it) = serverId it"
  "processedUrl (upload_catch err it) = processedUrl it"
  "downloadOriginalUrl (upload_catch err it) = downloadOriginalUrl it"
  "downloadProcessedUrl (upload_catch err it) = downloadProcessedUrl it"
  by (simp_all add: upload_catch_def)

lemma apply_status_status:
  "status (apply_status JNull it) = status it"
  "status (apply_status (JStr w) it) = (if w = [] then status it else w)"
  by (simp_all add: apply_status_def)

lemma apply_progress_eq:
  "apply_progress p it =
     (case reported_progress p of
        None \<Rightarrow> it
      | Some n \<Rightarrow> it\<lparr>progress := normaliseProgress (JNum n)\<rparr>)"
  by (simp add: apply_progress_def reported_progress_def split: jsval.splits)

lemma apply_progress_progress:
  "progress (apply_progress p it) =
     (case reported_progress p of
        None \<Rightarrow> progress it
      | Some n \<Rightarrow> normaliseProgress (JNum n))"
  by (simp add: apply_progress_eq split: option.splits)

lemma apply_urls_changes:
  "originalUrl (apply_urls p it) =
     (let u = or_chain [get_prop p ''originalUrl'', get_prop p ''sourceUrl'',
                        get_prop p ''thumbnailUrl'']
      in if truthy u then u else originalUrl it)"
  "processedUrl (apply_urls p it) =
     (let u = or_chain [get_prop p ''processedUrl'', get_prop p ''resultUrl'',
                        get_prop p ''previewUrl''];
          v = get_prop p ''processedPreviewUrl''
      in if truthy u then u
         else if truthy v \<and> \<not> truthy (processedUrl it) then v
         else processedUrl it)"
  "processedPreviewUrl (apply_urls p it) =
     (let v = get_prop p ''processedPreviewUrl''
      in if truthy v then v else processedPreviewUrl it)"
  "downloadOriginalUrl (apply_urls p it) =
     (let u = or_chain [get_prop p ''downloadOriginalUrl'', get_prop p ''originalDownloadUrl'']
      in if truthy u then u else downloadOriginalUrl it)"
  "downloadProcessedUrl (apply_urls p it) =
     (let u = or_chain [get_prop p ''downloadProcessedUrl'', get_prop p ''downloadUrl'',
                        get_prop p ''resultDownloadUrl'']
      in if truthy u then u else downloadProcessedUrl it)"
  by (simp_all add: apply_urls_def apply_originalUrl_def apply_processedUrl_def
      apply_processedPreviewUrl_def apply_downloadOriginalUrl_def
      apply_downloadProcessedUrl_def Let_def)

lemma finish_processed_changes:
  "progress (finish_processed it) = (if status it = ''processed'' then Fin 100 else progress it)"
  "originalPreviewUrl (finish_processed it) =
     (if status it = ''processed'' \<and> releases_preview it then None else originalPreviewUrl it)"
  by (simp_all add: finish_processed_def releases_preview_def Let_def split: option.splits)

lemma apply_errors_cases:
  "errors_list p = e # es \<Longrightarrow> js_join nts '' '' (e # es) = Inl err \<Longrightarrow>
     apply_errors nts p x = Thrown err (x\<lparr>status := ''failed''\<rparr>)"
  "errors_list p = e # es \<Longrightarrow> js_join nts '' '' (e # es) = Inr txt \<Longrightarrow>
     apply_errors nts p x = Returned (x\<lparr>status := ''failed'', message := JStr txt\<rparr>)"
  "errors_list p = [] \<Longrightarrow> truthy (get_prop p ''error'') \<Longrightarrow>
     apply_errors nts p x = Returned (x\<lparr>status := ''failed'', message := get_prop p ''error''\<rparr>)"
  "errors_list p = [] \<Longrightarrow> \<not> truthy (get_prop p ''error'') \<Longrightarrow> truthy (get_prop p ''message'') \<Longrightarrow>
     apply_errors nts p x = Returned (x\<lparr>message := get_prop p ''message''\<rparr>)"
  "errors_list p = [] \<Longrightarrow> \<not> truthy (get_prop p ''error'') \<Longrightarrow> \<not> truthy (get_prop p ''message'') \<Longrightarrow>
     apply_errors nts p x = Returned x"
  by (simp_all add: apply_errors_def)

text \<open>The merge without its error block, and the three ways the error block writes.\<close>

lemma merge_idem:
  assumes ns: "ns = JNull \<or> (\<exists>w. ns = JStr w)"
    and g: "g = (\<lambda>x. x) \<or> (\<exists>m. g = (\<lambda>x. x\<lparr>status := ''failed'', message := m\<rparr>))
            \<or> (\<exists>m. g = (\<lambda>x. x\<lparr>message := m\<rparr>))"
  shows "finish_processed (g (apply_urls p (apply_progress p (apply_status ns
           (finish_processed (g (apply_urls p (apply_progress p (apply_status ns it)))))))))
         = finish_processed (g (apply_urls p (apply_progress p (apply_status ns it))))"
  using ns g
  apply (intro item.equality)
  apply (auto simp add: apply_status_status apply_progress_progress apply_urls_changes
      finish_processed_changes Let_def releases_preview_def
      split: option.splits if_splits)
  done


lemma merge_thrown_idem:
  assumes ns: "ns = JNull \<or> (\<exists>w. ns = JStr w)"
  shows "(apply_urls p (apply_progress p (apply_status ns
            ((apply_urls p (apply_progress p (apply_status ns it)))\<lparr>status := ''failed''\<rparr>))))
           \<lparr>status := ''failed''\<rparr>
         = (apply_urls p (apply_progress p (apply_status ns it)))\<lparr>status := ''failed''\<rparr>"
  using ns
  apply (intro item.equality)
  apply (auto simp add: apply_status_status apply_progress_progress apply_urls_changes Let_def
      split: option.splits)
  done

section \<open>The progress normaliser\<close>


section \<open>The processing request orchestrator\<close>

text \<open>
  C10. Called with an absent or an empty list of identifiers, \<^verbatim>\<open>requestProcessing\<close> returns
  at once: the state (items, timer, batch link, effect log) is the one it was given, so
  nothing was mutated and no request was sent, and no snapshot is held by a continuation.
\<close>

theorem requestProcessing_empty_noop:
  "requestProcessing_begin nts s None = (s, None)
   \<and> requestProcessing_begin nts s (Some []) = (s, None)"
  by (simp add: requestProcessing_begin_def)

section \<open>The polling loop\<close>

lemma not_pollable:
  "list_all (\<lambda>it. status it \<in> {''processed'', ''failed''} \<or> \<not> truthy (serverId it)) xs
   \<Longrightarrow> \<not> list_ex shouldPoll xs"
  by (induction xs) (auto simp: shouldPoll_def)

text \<open>
  C7. When every item is processed, failed or without a server identifier, no item is
  pollable; and a pass that finds no pollable item is exactly \<^verbatim>\<open>stopPolling\<close>: the timer is
  cleared, the error-suppression flag is reset, items and batch link are untouched, and
  the only call it can add to the effect log is \<^verbatim>\<open>clearInterval\<close>, never a request.
\<close>

theorem pollStatuses_self_stop:
  "(list_all (\<lambda>it. status it \<in> {''processed'', ''failed''} \<or> \<not> truthy (serverId it)) (items s)
      \<longrightarrow> \<not> list_ex shouldPoll (items s))
   \<and> (\<not> list_ex shouldPoll (items s) \<longrightarrow>
        pollStatuses_begin nts s = stopPolling s
        \<and> pollTimer (pollStatuses_begin nts s) = False
        \<and> pollErrorNotified (pollStatuses_begin nts s) = False
        \<and> items (pollStatuses_begin nts s) = items s
        \<and> batchDownloadUrl (pollStatuses_begin nts s) = batchDownloadUrl s
        \<and> effects (pollStatuses_begin nts s) =
            effects s @ (if pollTimer s then [ClearInterval] else []))"
proof (intro conjI impI)
  assume "list_all (\<lambda>it. status it \<in> {''processed'', ''failed''} \<or> \<not> truthy (serverId it))
            (items s)"
  then show "\<not> list_ex shouldPoll (items s)" by (rule not_pollable)
next
  assume h: "\<not> list_ex shouldPoll (items s)"
  then have f: "filter shouldPoll (items s) = []"
    by (simp add: list_ex_iff filter_empty_conv)
  then show "pollStatuses_begin nts s = stopPolling s"
    by (simp add: pollStatuses_begin_def)
  with f show "pollTimer (pollStatuses_begin nts s) = False"
    "pollErrorNotified (pollStatuses_begin nts s) = False"
    "items (pollStatuses_begin nts s) = items s"
    "batchDownloadUrl (pollStatuses_begin nts s) = batchDownloadUrl s"
    "effects (pollStatuses_begin nts s) = effects s @ (if pollTimer s then [ClearInterval] else [])"
    by (simp_all add: stopPolling_def emit_def)
qed

theorem pollStatuses_self_stop_witness:
  "list_all (\<lambda>it. status it \<in> {''processed'', ''failed''} \<or> \<not> truthy (serverId it))
     (items rolled_back_state)
   \<and> \<not> list_ex shouldPoll (items rolled_back_state)
   \<and> pollTimer rolled_back_state
   \<and> pollTimer (pollStatuses_begin sample_nts rolled_back_state) = False
   \<and> pollErrorNotified (pollStatuses_begin sample_nts rolled_back_state) = False
   \<and> effects (pollStatuses_begin sample_nts rolled_back_state) =
       effects rolled_back_state @ [ClearInterval]"
proof -
  have a: "list_all (\<lambda>it. status it \<in> {''processed'', ''failed''} \<or> \<not> truthy (serverId it))
             (items rolled_back_state)"
    by code_simp
  have b: "pollTimer rolled_back_state" by code_simp
  from pollStatuses_self_stop[of rolled_back_state sample_nts] a b show ?thesis
    by (simp add: stopPolling_def)
qed

section \<open>The upload orchestrator\<close>







section \<open>Conversions that cannot throw\<close>

text \<open>
  On plain values no conversion to text throws; a plain poll record is therefore always
  merged to the end.
\<close>

lemma plain_converts:
  "plain v \<Longrightarrow> \<exists>t. js_ToString nts v = Inr t"
  "plain_list xs \<Longrightarrow> \<exists>t. js_join nts sep xs = Inr t"
proof (induction nts v and nts sep xs rule: js_ToString_js_join.induct)
  case (9 nts sep x xs)
  then show ?case by (cases "x = JUndefined \<or> x = JNull"; cases "xs = []") auto
qed simp_all

lemma plain_props_lookup: "plain_props kvs \<Longrightarrow> map_of kvs k = Some v \<Longrightarrow> plain v"
  by (induction kvs) (auto split: if_splits)

lemma plain_get_prop: "plain v \<Longrightarrow> plain (get_prop v k)"
  by (cases v) (auto split: option.splits dest: plain_props_lookup)

lemma plain_or_chain: "plain_list vs \<Longrightarrow> plain (or_chain vs)"
  by (induction vs rule: or_chain.induct) (simp_all add: or_chain.simps)

lemma plain_normaliseStatus: "plain v \<Longrightarrow> \<exists>ns. normaliseStatus nts v = Inr ns"
  using plain_converts(1)[of v nts]
  by (cases v) (auto simp: normaliseStatus_def call_toString_def)

lemma plain_errors_list: "plain r \<Longrightarrow> plain_list (errors_list r)"
  using plain_get_prop[of r "''errors''"]
  by (cases "get_prop r ''errors''") (simp_all add: errors_list_def)

lemma plain_record_merges:
  assumes "plain r"
  shows "\<exists>it'. updateItemFromServer nts it r = Returned it'"
proof -
  from assms have "plain (or_chain [get_prop r ''status'', get_prop r ''state'', get_prop r ''stage''])"
    by (intro plain_or_chain) (simp add: plain_get_prop)
  then obtain ns where ns: "normaliseStatus nts
      (or_chain [get_prop r ''status'', get_prop r ''state'', get_prop r ''stage'']) = Inr ns"
    using plain_normaliseStatus by blast
  from plain_converts(2)[OF plain_errors_list[OF assms], of nts "'' ''"]
  obtain joined where j: "js_join nts '' '' (errors_list r) = Inr joined" by blast
  have "\<exists>y. apply_errors nts r x = Returned y" for x
    using j by (cases "errors_list r") (simp_all add: apply_errors_def)
  then obtain y where
    "apply_errors nts r (apply_urls r (apply_progress r (apply_status ns it))) = Returned y"
    by blast
  with ns show ?thesis
    by (simp add: updateItemFromServer_def)
qed

section \<open>Merging server records\<close>

text \<open>
  C9. Applying a poll record to an item and then applying the same record to the result
  gives what one application gives: the same item and the same way of ending (normal
  return, or the same exception with the same partly written item).
\<close>

theorem updateItemFromServer_idempotent:
  "updateItemFromServer nts (state_of (updateItemFromServer nts it p)) p
   = updateItemFromServer nts it p"
proof (cases "truthy p")
  case False
  then show ?thesis by (simp add: updateItemFromServer_def)
next
  case True
  let ?v = "or_chain [get_prop p ''status'', get_prop p ''state'', get_prop p ''stage'']"
  show ?thesis
  proof (cases "normaliseStatus nts ?v")
    case (Inl err)
    with True show ?thesis by (simp add: updateItemFromServer_def)
  next
    case (Inr ns)
    then have ns: "ns = JNull \<or> (\<exists>w. ns = JStr w)" by (rule normaliseStatus_cases)
    let ?A = "\<lambda>x. apply_urls p (apply_progress p (apply_status ns x))"
    have unfold: "updateItemFromServer nts x p =
        (case apply_errors nts p (?A x) of
           Thrown err y \<Rightarrow> Thrown err y
         | Returned y \<Rightarrow> Returned (finish_processed y))" for x
      using True Inr by (simp add: updateItemFromServer_def)
    show ?thesis
    proof (cases "errors_list p")
      case (Cons e es)
      show ?thesis
      proof (cases "js_join nts '' '' (e # es)")
        case (Inl err)
        show ?thesis
          using merge_thrown_idem[OF ns, of p it]
          by (simp add: unfold apply_errors_cases(1)[OF Cons Inl])
      next
        case (Inr joined)
        have "(\<lambda>x. x\<lparr>status := ''failed'', message := JStr joined\<rparr>) = (\<lambda>x. x)
            \<or> (\<exists>m. (\<lambda>x. x\<lparr>status := ''failed'', message := JStr joined\<rparr>)
                    = (\<lambda>x::item. x\<lparr>status := ''failed'', message := m\<rparr>))
            \<or> (\<exists>m. (\<lambda>x. x\<lparr>status := ''failed'', message := JStr joined\<rparr>)
                    = (\<lambda>x::item. x\<lparr>message := m\<rparr>))"
          by blast
        from merge_idem[OF ns this, of p it] show ?thesis
          by (simp add: unfold apply_errors_cases(2)[OF Cons Inr])
      qed
    next
      case Nil
      show ?thesis
      proof (cases "truthy (get_prop p ''error'')")
        case True
        have "(\<lambda>x. x\<lparr>status := ''failed'', message := get_prop p ''error''\<rparr>) = (\<lambda>x. x)
            \<or> (\<exists>m. (\<lambda>x. x\<lparr>status := ''failed'', message := get_prop p ''error''\<rparr>)
                    = (\<lambda>x::item. x\<lparr>status := ''failed'', message := m\<rparr>))
            \<or> (\<exists>m. (\<lambda>x. x\<lparr>status := ''failed'', message := get_prop p ''error''\<rparr>)
                    = (\<lambda>x::item. x\<lparr>message := m\<rparr>))"
          by blast
        from merge_idem[OF ns this, of p it] show ?thesis
          by (simp add: unfold apply_errors_cases(3)[OF Nil True])
      next
        case False
        note noerr = this
        show ?thesis
        proof (cases "truthy (get_prop p ''message'')")
          case True
          have "(\<lambda>x. x\<lparr>message := get_prop p ''message''\<rparr>) = (\<lambda>x. x)
            \<or> (\<exists>m. (\<lambda>x. x\<lparr>message := get_prop p ''message''\<rparr>)
                    = (\<lambda>x::item. x\<lparr>status := ''failed'', message := m\<rparr>))
            \<or> (\<exists>m. (\<lambda>x. x\<lparr>message := get_prop p ''message''\<rparr>)
                    = (\<lambda>x::item. x\<lparr>message := m\<rparr>))"
            by blast
          from merge_idem[OF ns this, of p it] show ?thesis
            by (simp add: unfold apply_errors_cases(4)[OF Nil noerr True])
        next
          case False
          have "(\<lambda>x::item. x) = (\<lambda>x. x)
            \<or> (\<exists>m. (\<lambda>x::item. x) = (\<lambda>x::item. x\<lparr>status := ''failed'', message := m\<rparr>))
            \<or> (\<exists>m. (\<lambda>x::item. x) = (\<lambda>x::item. x\<lparr>message := m\<rparr>))"
            by blast
          from merge_idem[OF ns this, of p it] show ?thesis
            by (simp add: unfold apply_errors_cases(5)[OF Nil noerr False])
        qed
      qed
    qed
  qed
qed

lemma get_prop_truthy: "get_prop r k \<noteq> JUndefined \<Longrightarrow> truthy r"
  by (cases r) simp_all






section \<open>Failed uploads\<close>

lemma uploadFile_resume_failed_item:
  "i < length (items s) \<Longrightarrow> failed_outcome outcome \<Longrightarrow>
   items (uploadFile_resume nts s i outcome) ! i =
     upload_catch
       (case outcome of
          Rejected err \<Rightarrow> err
        | Response ok body js \<Rightarrow>
            (case body of
               Inl err \<Rightarrow> err
             | Inr errorText \<Rightarrow> JsError (if errorText \<noteq> [] then errorText else ''Upload failed'')))
       (items s ! i)"
  by (cases outcome) (simp_all add: uploadFile_resume_def split: sum.splits)

text \<open>
  C3, as the code has it. An upload that is rejected or answered with a non-success
  status leaves the item \<^verbatim>\<open>failed\<close> with progress \<open>0\<close> and the message of the error, the text of
  the response body, or \<^verbatim>\<open>Upload failed\<close> when that text is empty. The file handle is not
  released on this path: the item keeps the handle it had, whereas the success path
  stores \<^verbatim>\<open>null\<close>.
\<close>

theorem upload_failure_keeps_file:
  assumes "i < length (items s)" and "failed_outcome outcome"
  shows "let it = items s ! i; it' = items (uploadFile_resume nts s i outcome) ! i
         in status it' = ''failed'' \<and> progress it' = Fin 0
            \<and> message it' =
                JStr (case outcome of
                        Rejected err \<Rightarrow>
                          (if error_message err = [] then ''Upload failed'' else error_message err)
                      | Response ok body js \<Rightarrow>
                          (case body of
                             Inl err \<Rightarrow>
                               (if error_message err = [] then ''Upload failed''
                                else error_message err)
                           | Inr errorText \<Rightarrow>
                               (if errorText = [] then ''Upload failed'' else errorText)))
            \<and> file_handle it' = file_handle it"
  using assms
  by (cases outcome)
    (auto simp add: uploadFile_resume_failed_item Let_def upload_catch_def split: sum.splits)

theorem upload_failure_keeps_file_witness:
  "file_handle (items uploading_state ! 0) = Some photo
   \<and> status (items (uploadFile_resume sample_nts uploading_state 0 server_refusal) ! 0) = ''failed''
   \<and> progress (items (uploadFile_resume sample_nts uploading_state 0 server_refusal) ! 0) = Fin 0
   \<and> message (items (uploadFile_resume sample_nts uploading_state 0 server_refusal) ! 0)
       = JStr ''Service unavailable''
   \<and> file_handle (items (uploadFile_resume sample_nts uploading_state 0 server_refusal) ! 0)
       = Some photo
   \<and> file_handle (items uploaded_state ! 0) = None"
proof -
  have len: "0 < length (items uploading_state)" by code_simp
  have f: "failed_outcome server_refusal" by code_simp
  have h: "file_handle (items uploading_state ! 0) = Some photo" by code_simp
  have u: "file_handle (items uploaded_state ! 0) = None" by code_simp
  from upload_failure_keeps_file[OF len f, of sample_nts] h u show ?thesis
    by (auto simp add: Let_def server_refusal_def)
qed

section \<open>Rollback of a failed processing request\<close>




lemma restore_simps [simp]:
  "batchDownloadUrl (restore s snap) = batchDownloadUrl s"
  "pollTimer (restore s snap) = pollTimer s"
  "length (items (restore s snap)) = length (items s)"
  by (simp_all add: restore_def)

lemma foldl_restore_frame [simp]:
  "batchDownloadUrl (foldl restore s snaps) = batchDownloadUrl s"
  "pollTimer (foldl restore s snaps) = pollTimer s"
  "length (items (foldl restore s snaps)) = length (items s)"
  by (induction snaps arbitrary: s) simp_all




lemma optimistic_length [simp]: "length (items (optimistic s snap)) = length (items s)"
  by (simp add: optimistic_def)

lemma foldl_optimistic_length [simp]:
  "length (items (foldl optimistic s snaps)) = length (items s)"
  by (induction snaps arbitrary: s) simp_all





section \<open>Range of the stored progress\<close>



lemma whole_percentage_consts [simp]:
  "whole_percentage (Fin 0)" "whole_percentage (Fin 5)" "whole_percentage (Fin 100)"
  by (simp_all add: whole_percentage_def)


lemma all_whole_frame [simp]:
  "all_whole (emit e s) = all_whole s"
  "all_whole (renderQueue s) = all_whole s"
  "all_whole (stopPolling s) = all_whole s"
  "all_whole (pollStatuses_begin nts s) = all_whole s"
  "all_whole (ensurePolling nts s) = all_whole s"
  "all_whole (poll_catch s) = all_whole s"
  "all_whole (s\<lparr>pollErrorNotified := b\<rparr>) = all_whole s"
  "all_whole (s\<lparr>batchDownloadUrl := z\<rparr>) = all_whole s"
  by (simp_all add: all_whole_def poll_catch_def)
















section \<open>The batch archive link\<close>



lemma poll_catch_batch [simp]: "batchDownloadUrl (poll_catch s) = batchDownloadUrl s"
  by (simp add: poll_catch_def)

lemma uploadFile_begin_batch [simp]:
  "batchDownloadUrl (uploadFile_begin s i) = batchDownloadUrl s"
  by (simp add: uploadFile_begin_def Let_def split: option.splits)

lemma foldl_optimistic_batch [simp]:
  "batchDownloadUrl (foldl optimistic s snaps) = batchDownloadUrl s"
  by (induction snaps arbitrary: s) (simp_all add: optimistic_def)




end
